theory Spec2Isabelle
  imports Complex_Main "HOL-Library.Product_Lexorder"
begin

section \<open>Python values and exceptions\<close>

text \<open>
  The exceptions the modelled code raises or lets through. Each constructor carries the
  message of the exception, which is what \<open>str(e)\<close> and an f-string render. \<open>Exception\<close> is the plain base class that
  \<open>AssistantClient._make_request\<close> raises; the others are the subclasses that occur.
\<close>

datatype exn =
    ValueError string
  | TypeError string
  | IndexError string
  | OverflowError string
  | RequestException string
  | Exception string

text \<open>
  A Python \<open>float\<close>: a finite value, an infinity, or \<open>nan\<close>. Rounding to the nearest
  double is left to the builtins that produce floats.
\<close>

datatype pyfloat = NaN | NegInf | Finite real | PosInf

text \<open>
  Dynamically typed values: what a prediction holds, what a message's content is, what a
  document's metadata maps to.
\<close>

datatype pyobj =
    PyStr string
  | PyFloat pyfloat
  | PyInt int
  | PyList "pyobj list"
  | PyNone

text \<open>
  \<open>str(v)\<close>: a \<open>str\<close> is returned as it is; the rendering of every other value is the
  builtin's, taken as the parameter \<open>repr\<close>.
\<close>

fun py_str :: "(pyobj \<Rightarrow> string) \<Rightarrow> pyobj \<Rightarrow> string" where
  "py_str repr (PyStr s) = s"
| "py_str repr v = repr v"

text \<open>The slice \<open>xs[:k]\<close>: a negative \<open>k\<close> counts from the end.\<close>

definition py_slice_to :: "'a list \<Rightarrow> int \<Rightarrow> 'a list" where
  "py_slice_to xs k =
     (if 0 \<le> k then take (nat k) xs else take (nat (int (length xs) + k)) xs)"

text \<open>Decimal rendering of an integer, as \<open>str(n)\<close> and an f-string do.\<close>

definition digit_char :: "nat \<Rightarrow> char" where
  "digit_char d = ''0123456789'' ! d"

function str_nat :: "nat \<Rightarrow> string" where
  "str_nat n = (if n < 10 then [digit_char n] else str_nat (n div 10) @ [digit_char (n mod 10)])"
  by pat_completeness auto
termination
  by (relation "measure id") auto

definition str_int :: "int \<Rightarrow> string" where
  "str_int i = (if i < 0 then CHR ''-'' # str_nat (nat (- i)) else str_nat (nat i))"

section \<open>Conversation store (\<open>src/agent/datastore/datastore.py\<close>)\<close>

text \<open>The dictionary \<open>MockDatabaseClient.store_conversation\<close> keeps for one session.\<close>

record 'a conversation =
  user_id :: "string option"
  conversation_history :: "'a list"
  last_conversation_time :: string
  start_conversation_time :: string

record 'a MockDatabaseClient =
  conversations :: "string \<rightharpoonup> 'a conversation"

definition Mock_init :: "'a MockDatabaseClient" where
  "Mock_init = \<lparr>conversations = Map.empty\<rparr>"

definition Mock_store_conversation ::
  "'a MockDatabaseClient \<Rightarrow> string \<Rightarrow> string option \<Rightarrow> 'a list \<Rightarrow> string \<Rightarrow> string
     \<Rightarrow> 'a MockDatabaseClient" where
  "Mock_store_conversation db session_id uid history last_time start_time =
     db\<lparr>conversations := (conversations db)(session_id \<mapsto>
        \<lparr>user_id = uid, conversation_history = history,
         last_conversation_time = last_time, start_conversation_time = start_time\<rparr>)\<rparr>"

text \<open>\<open>self.conversations.get(session_id, None)\<close>: \<open>None\<close> is Python's \<open>None\<close>.\<close>

definition Mock_fetch_conversation ::
  "'a MockDatabaseClient \<Rightarrow> string \<Rightarrow> 'a conversation option" where
  "Mock_fetch_conversation db session_id = conversations db session_id"

definition Mock_is_session :: "'a MockDatabaseClient \<Rightarrow> string \<Rightarrow> bool" where
  "Mock_is_session db session_id = (conversations db session_id \<noteq> None)"

definition Mock_delete_conversation ::
  "'a MockDatabaseClient \<Rightarrow> string \<Rightarrow> 'a MockDatabaseClient" where
  "Mock_delete_conversation db session_id =
     (if Mock_is_session db session_id
      then db\<lparr>conversations := (conversations db)(session_id := None)\<rparr>
      else db)"

text \<open>
  \<open>PostgresClient\<close> lives in \<open>postgres_client.py\<close>, which is not part of the sources at
  hand: its constructor and its four methods are parameters, each returning the new
  client state or the exception it raised.
\<close>

record ('pg, 'a) PostgresClient_ops =
  pg_store_conversation ::
    "'pg \<Rightarrow> string \<Rightarrow> string option \<Rightarrow> 'a list \<Rightarrow> string \<Rightarrow> string \<Rightarrow> exn + 'pg"
  pg_fetch_conversation :: "'pg \<Rightarrow> string \<Rightarrow> exn + 'a conversation option \<times> 'pg"
  pg_delete_conversation :: "'pg \<Rightarrow> string \<Rightarrow> exn + 'pg"
  pg_is_session :: "'pg \<Rightarrow> string \<Rightarrow> exn + bool \<times> 'pg"

datatype ('pg, 'a) database =
    Postgres 'pg
  | Mock "'a MockDatabaseClient"

text \<open>
  \<open>Datastore.__init__\<close>, with \<open>get_config().database.name\<close> as \<open>db_name\<close> and the outcome
  of \<open>PostgresClient()\<close> as \<open>pg_init\<close>.
\<close>

definition Datastore_init :: "string \<Rightarrow> exn + 'pg \<Rightarrow> exn + ('pg, 'a) database" where
  "Datastore_init db_name pg_init =
     (if db_name = ''postgres'' then
        (case pg_init of Inl e \<Rightarrow> Inl e | Inr pg \<Rightarrow> Inr (Postgres pg))
      else if db_name = ''none'' then Inr (Mock Mock_init)
      else Inl (ValueError
        (db_name @ '' database in not supported. Supported types: postgres, none'')))"

text \<open>
  The facade's methods. Each returns what the Python method returns, with the store after
  the call. \<open>store_conversation\<close>, \<open>fetch_conversation\<close> and \<open>delete_conversation\<close> have no
  \<open>return\<close> statement: they evaluate the backend's call and return \<open>None\<close>.
\<close>

definition store_conversation ::
  "('pg, 'a) PostgresClient_ops \<Rightarrow> ('pg, 'a) database \<Rightarrow> string \<Rightarrow> string option \<Rightarrow> 'a list
     \<Rightarrow> string \<Rightarrow> string \<Rightarrow> exn + ('pg, 'a) database" where
  "store_conversation ops db session_id uid history last_time start_time =
     (case db of
        Postgres pg \<Rightarrow>
          (case pg_store_conversation ops pg session_id uid history last_time start_time of
             Inl e \<Rightarrow> Inl e
           | Inr pg' \<Rightarrow> Inr (Postgres pg'))
      | Mock m \<Rightarrow>
          Inr (Mock (Mock_store_conversation m session_id uid history last_time start_time)))"

definition fetch_conversation ::
  "('pg, 'a) PostgresClient_ops \<Rightarrow> ('pg, 'a) database \<Rightarrow> string
     \<Rightarrow> exn + 'a conversation option \<times> ('pg, 'a) database" where
  "fetch_conversation ops db session_id =
     (case db of
        Postgres pg \<Rightarrow>
          (case pg_fetch_conversation ops pg session_id of
             Inl e \<Rightarrow> Inl e
           | Inr (fetched, pg') \<Rightarrow> Inr (None, Postgres pg'))
      | Mock m \<Rightarrow>
          (let fetched = Mock_fetch_conversation m session_id in Inr (None, Mock m)))"

definition delete_conversation ::
  "('pg, 'a) PostgresClient_ops \<Rightarrow> ('pg, 'a) database \<Rightarrow> string \<Rightarrow> exn + ('pg, 'a) database" where
  "delete_conversation ops db session_id =
     (case db of
        Postgres pg \<Rightarrow>
          (case pg_delete_conversation ops pg session_id of
             Inl e \<Rightarrow> Inl e
           | Inr pg' \<Rightarrow> Inr (Postgres pg'))
      | Mock m \<Rightarrow> Inr (Mock (Mock_delete_conversation m session_id)))"

definition is_session ::
  "('pg, 'a) PostgresClient_ops \<Rightarrow> ('pg, 'a) database \<Rightarrow> string
     \<Rightarrow> exn + bool \<times> ('pg, 'a) database" where
  "is_session ops db session_id =
     (case db of
        Postgres pg \<Rightarrow>
          (case pg_is_session ops pg session_id of
             Inl e \<Rightarrow> Inl e
           | Inr (b, pg') \<Rightarrow> Inr (b, Postgres pg'))
      | Mock m \<Rightarrow> Inr (Mock_is_session m session_id, Mock m))"

section \<open>Retrying transport (\<open>src/common/assistant_client.py\<close>)\<close>

record AssistantConfig =
  base_url :: string
  timeout :: int
  retry_attempts :: int
  retry_delay :: pyfloat

definition default_AssistantConfig :: AssistantConfig where
  "default_AssistantConfig =
     \<lparr>base_url = ''http://localhost:8000'', timeout = 30, retry_attempts = 3,
      retry_delay = Finite 1\<rparr>"

text \<open>The arguments of one \<open>self.session.request(...)\<close> call.\<close>

record ('d, 'k) request =
  req_method :: string
  req_url :: string
  req_json :: "'d option"
  req_timeout :: int
  req_kwargs :: 'k

text \<open>
  What the session hands back: \<open>raise_for_status()\<close> raises \<open>status_error\<close> when there is
  one, and \<open>json()\<close> gives the parsed body or raises.
\<close>

record 'j response =
  status_error :: "exn option"
  json_body :: "exn + 'j"

text \<open>
  The network is a parameter: \<open>session n req\<close> is the outcome of the \<open>n\<close>-th call (counted
  from 0) of \<open>self.session.request\<close> made by one \<open>_make_request\<close>.
\<close>

type_synonym ('d, 'k, 'j) session = "nat \<Rightarrow> ('d, 'k) request \<Rightarrow> exn + 'j response"

text \<open>What one \<open>_make_request\<close> does besides returning, in order.\<close>

datatype ('d, 'k) event =
    SessionRequest "('d, 'k) request"
  | LogWarning string
  | Sleep pyfloat

text \<open>The body of the \<open>try\<close>: request, \<open>raise_for_status()\<close>, \<open>json()\<close>.\<close>

definition try_request ::
  "('d, 'k, 'j) session \<Rightarrow> nat \<Rightarrow> ('d, 'k) request \<Rightarrow> exn + 'j" where
  "try_request session n req =
     (case session n req of
        Inl e \<Rightarrow> Inl e
      | Inr resp \<Rightarrow>
          (case status_error resp of
             Some e \<Rightarrow> Inl e
           | None \<Rightarrow> json_body resp))"

text \<open>
  The two messages: \<open>f"Request attempt {attempt + 1} failed: {e}"\<close> and
  \<open>f"All {self.config.retry_attempts} attempts failed: {e}"\<close>.
\<close>

definition attempt_warning :: "int \<Rightarrow> string \<Rightarrow> string" where
  "attempt_warning attempt e =
     ''Request attempt '' @ str_int (attempt + 1) @ '' failed: '' @ e"

definition all_failed :: "int \<Rightarrow> string \<Rightarrow> string" where
  "all_failed attempts e = ''All '' @ str_int attempts @ '' attempts failed: '' @ e"

text \<open>
  \<open>time.sleep\<close> is the builtin, taken as the parameter \<open>sleep\<close>: \<open>sleep d\<close> is \<open>None\<close> when
  the call sleeps for \<open>d\<close> and returns, and the exception when it raises instead (a
  \<open>ValueError\<close> for a negative delay or \<open>nan\<close>, an \<open>OverflowError\<close> for a delay too large).
\<close>

type_synonym time_sleep = "pyfloat \<Rightarrow> exn option"

text \<open>
  The \<open>for attempt in range(retry_attempts)\<close> loop over the attempts still to run. Only a
  \<open>RequestException\<close> is caught; any other exception leaves the loop at once, and so does
  one that \<open>time.sleep\<close> raises inside the handler. When the loop runs out the method
  falls off its end and returns \<open>None\<close> (\<open>Inr None\<close>).
\<close>

fun make_request_loop ::
  "AssistantConfig \<Rightarrow> ('d, 'k, 'j) session \<Rightarrow> time_sleep \<Rightarrow> ('d, 'k) request \<Rightarrow> int list
     \<Rightarrow> (exn + 'j option) \<times> ('d, 'k) event list" where
  "make_request_loop config session sleep req [] = (Inr None, [])"
| "make_request_loop config session sleep req (attempt # rest) =
     (case try_request session (nat attempt) req of
        Inr j \<Rightarrow> (Inr (Some j), [SessionRequest req])
      | Inl (RequestException e) \<Rightarrow>
          (if attempt < retry_attempts config - 1 then
             (case sleep (retry_delay config) of
                Some raised \<Rightarrow>
                  (Inl raised, [SessionRequest req, LogWarning (attempt_warning attempt e)])
              | None \<Rightarrow>
                  (case make_request_loop config session sleep req rest of
                     (r, evs) \<Rightarrow>
                       (r, [SessionRequest req, LogWarning (attempt_warning attempt e),
                            Sleep (retry_delay config)] @ evs)))
           else
             (Inl (Exception (all_failed (retry_attempts config) e)),
              [SessionRequest req, LogWarning (attempt_warning attempt e)]))
      | Inl other \<Rightarrow> (Inl other, [SessionRequest req]))"

text \<open>\<open>range(n)\<close> for a Python int: empty when \<open>n \<le> 0\<close>.\<close>

definition py_range :: "int \<Rightarrow> int list" where
  "py_range n = map int [0..<nat n]"

definition make_request ::
  "AssistantConfig \<Rightarrow> ('d, 'k, 'j) session \<Rightarrow> time_sleep \<Rightarrow> string \<Rightarrow> string
     \<Rightarrow> 'd option \<Rightarrow> 'k \<Rightarrow> (exn + 'j option) \<times> ('d, 'k) event list" where
  "make_request config session sleep method endpoint data kwargs =
     make_request_loop config session sleep
       \<lparr>req_method = method, req_url = base_url config @ endpoint, req_json = data,
        req_timeout = timeout config, req_kwargs = kwargs\<rparr>
       (py_range (retry_attempts config))"



section \<open>Inference clients (\<open>src/common/datarobot_client.py\<close>)\<close>

text \<open>The one-row data frame a client sends to the deployment.\<close>

datatype row =
    PromptRow string
  | TextRow string
  | RerankRow string string nat

text \<open>
  The deployment is a parameter: \<open>deployment n r\<close> is the outcome of the \<open>n\<close>-th call
  (counted from 0) that one client operation makes, building the data set for the row \<open>r\<close>
  and calling \<open>self._deployment.predict\<close> on it: the exception raised, or the prediction,
  which is \<open>None\<close> or a list.
\<close>

type_synonym deployment = "nat \<Rightarrow> row \<Rightarrow> exn + pyobj list option"

text \<open>\<open>DataRobotLLMClient.predict\<close>; the \<open>except\<close> clause logs and re-raises.\<close>

definition predict :: "deployment \<Rightarrow> (pyobj \<Rightarrow> string) \<Rightarrow> string \<Rightarrow> exn + string" where
  "predict dep repr prompt =
     (case dep 0 (PromptRow prompt) of
        Inl e \<Rightarrow> Inl e
      | Inr predictions \<Rightarrow>
          (case predictions of
             Some (p # ps) \<Rightarrow> Inr (py_str repr p)
           | _ \<Rightarrow> Inl (ValueError ''No prediction returned from DataRobot'')))"

text \<open>A chat message in the client's format: a dictionary with the keys role and content.\<close>

type_synonym message = "string \<rightharpoonup> pyobj"

definition dict_get :: "('k \<rightharpoonup> 'v) \<Rightarrow> 'k \<Rightarrow> 'v \<Rightarrow> 'v" where
  "dict_get d k dflt = (case d k of None \<Rightarrow> dflt | Some v \<Rightarrow> v)"

text \<open>
  The loop of \<open>_format_messages_to_prompt\<close> over the messages left, \<open>formatted_prompt\<close>
  being what has been written so far. The \<open>if\<close>/\<open>elif\<close> chain has no \<open>else\<close>.
\<close>

fun format_loop :: "(pyobj \<Rightarrow> string) \<Rightarrow> string \<Rightarrow> message list \<Rightarrow> string" where
  "format_loop repr formatted_prompt [] = formatted_prompt"
| "format_loop repr formatted_prompt (m # ms) =
     (let role = dict_get m ''role'' (PyStr ''user'');
          content = dict_get m ''content'' (PyStr [])
      in format_loop repr
           (if role = PyStr ''system'' then
              formatted_prompt @ ''System: '' @ py_str repr content @ ''\<newline>''
            else if role = PyStr ''user'' then
              formatted_prompt @ ''User: '' @ py_str repr content @ ''\<newline>''
            else if role = PyStr ''assistant'' then
              formatted_prompt @ ''Assistant: '' @ py_str repr content @ ''\<newline>''
            else formatted_prompt)
           ms)"

definition format_messages_to_prompt :: "(pyobj \<Rightarrow> string) \<Rightarrow> message list \<Rightarrow> string" where
  "format_messages_to_prompt repr messages = format_loop repr [] messages @ ''Assistant:''"

definition chat :: "deployment \<Rightarrow> (pyobj \<Rightarrow> string) \<Rightarrow> message list \<Rightarrow> exn + string" where
  "chat dep repr messages = predict dep repr (format_messages_to_prompt repr messages)"

text \<open>
  \<open>eval\<close> is the builtin, taken as the parameter \<open>py_eval\<close>. It runs the string in the frame
  of \<open>embed_documents\<close>, where it can read and change the two lists the loop works on:
  it takes the pair of \<open>texts\<close> and \<open>embeddings\<close> as they are and gives back the value of
  the expression with the two lists as it left them, or the exception raised.
\<close>

type_synonym frame = "string list \<times> pyobj list"

type_synonym py_eval = "string \<Rightarrow> frame \<Rightarrow> exn + pyobj \<times> frame"

definition no_embedding :: "string \<Rightarrow> string" where
  "no_embedding text = ''No embedding returned for text: '' @ take 100 text @ ''...''"

text \<open>
  The body of the loop of \<open>embed_documents\<close> for one text, as the \<open>n\<close>-th call, in the frame
  given: the embedding to append with the frame left behind, or the exception raised.
\<close>

definition embed_one ::
  "deployment \<Rightarrow> py_eval \<Rightarrow> nat \<Rightarrow> string \<Rightarrow> frame \<Rightarrow> exn + pyobj \<times> frame" where
  "embed_one dep ev n text fr =
     (case dep n (TextRow text) of
        Inl e \<Rightarrow> Inl e
      | Inr prediction \<Rightarrow>
          (case prediction of
             Some (p # ps) \<Rightarrow> (case p of PyStr s \<Rightarrow> ev s fr | _ \<Rightarrow> Inr (p, fr))
           | _ \<Rightarrow> Inl (ValueError (no_embedding text))))"

text \<open>
  The loop \<open>for text in texts\<close>: the iterator is at position \<open>i\<close> of the list \<open>texts\<close>, which
  is also the number of calls made so far, and stops when \<open>i\<close> reaches the length the
  list has by then. It need not stop when \<open>eval\<close> keeps extending \<open>texts\<close>: the result
  is \<open>None\<close> when the loop runs forever. The \<open>except\<close> clause around it logs and re-raises.
\<close>

partial_function (option) embed_loop ::
  "deployment \<Rightarrow> py_eval \<Rightarrow> nat \<Rightarrow> string list \<Rightarrow> pyobj list \<Rightarrow> (exn + pyobj list) option" where
  "embed_loop dep ev i texts embeddings =
     (if i < length texts then
        (case embed_one dep ev i (texts ! i) (texts, embeddings) of
           Inl e \<Rightarrow> Some (Inl e)
         | Inr (embedding, (texts', embeddings')) \<Rightarrow>
             embed_loop dep ev (Suc i) texts' (embeddings' @ [embedding]))
      else Some (Inr embeddings))"

definition embed_documents ::
  "deployment \<Rightarrow> py_eval \<Rightarrow> string list \<Rightarrow> (exn + pyobj list) option" where
  "embed_documents dep ev texts = embed_loop dep ev 0 texts []"


text \<open>
  \<open>float(v)\<close>: a float is returned as it is; converting any other value (rounding an
  integer, parsing a string, raising \<open>OverflowError\<close>, \<open>ValueError\<close> or \<open>TypeError\<close>) is the
  builtin's, taken as the parameter \<open>conv\<close>.
\<close>

fun py_float :: "(pyobj \<Rightarrow> exn + pyfloat) \<Rightarrow> pyobj \<Rightarrow> exn + pyfloat" where
  "py_float conv (PyFloat f) = Inr f"
| "py_float conv v = conv v"

text \<open>
  The order of floats that are not \<open>nan\<close>, as a key: minus infinity, the finite values,
  plus infinity. \<open>float_less\<close> is \<open><\<close> on floats, false whenever \<open>nan\<close> is involved.
\<close>

fun float_key :: "pyfloat \<Rightarrow> int \<times> real" where
  "float_key NegInf = (- 1, 0)"
| "float_key (Finite r) = (0, r)"
| "float_key PosInf = (1, 0)"
| "float_key NaN = (2, 0)"

definition float_less :: "pyfloat \<Rightarrow> pyfloat \<Rightarrow> bool" where
  "float_less a b = (a \<noteq> NaN \<and> b \<noteq> NaN \<and> float_key a < float_key b)"

text \<open>One entry of the list \<open>rerank\<close> returns.\<close>

record rerank_result =
  document :: string
  score :: pyfloat
  index :: nat

text \<open>
  The body of the loop of \<open>rerank\<close> for the document at index \<open>i\<close>: the exception raised,
  no score (the prediction is empty, a warning is logged), or the score.
\<close>

definition score_one ::
  "deployment \<Rightarrow> (pyobj \<Rightarrow> exn + pyfloat) \<Rightarrow> string \<Rightarrow> nat \<Rightarrow> string
     \<Rightarrow> exn + pyfloat option" where
  "score_one dep conv query i doc =
     (case dep i (RerankRow query doc i) of
        Inl e \<Rightarrow> Inl e
      | Inr prediction \<Rightarrow>
          (case prediction of
             Some (p # ps) \<Rightarrow>
               (case py_float conv p of Inl e \<Rightarrow> Inl e | Inr s \<Rightarrow> Inr (Some s))
           | _ \<Rightarrow> Inr None))"

text \<open>
  The loop over the documents left, \<open>i\<close> being the index \<open>enumerate\<close> gives the next one;
  it returns the results appended from here on.
\<close>

fun rerank_loop ::
  "deployment \<Rightarrow> (pyobj \<Rightarrow> exn + pyfloat) \<Rightarrow> string \<Rightarrow> nat \<Rightarrow> string list
     \<Rightarrow> exn + rerank_result list" where
  "rerank_loop dep conv query i [] = Inr []"
| "rerank_loop dep conv query i (doc # docs) =
     (case score_one dep conv query i doc of
        Inl e \<Rightarrow> Inl e
      | Inr None \<Rightarrow> rerank_loop dep conv query (Suc i) docs
      | Inr (Some s) \<Rightarrow>
          (case rerank_loop dep conv query (Suc i) docs of
             Inl e \<Rightarrow> Inl e
           | Inr results \<Rightarrow> Inr (\<lparr>document = doc, score = s, index = i\<rparr> # results)))"

text \<open>
  \<open>list.sort(key=..., reverse=True)\<close> on keys that are totally ordered: the list is
  reversed, sorted stably by ascending key, and reversed again, so that entries with
  equal keys keep their order.
\<close>

definition sort_reverse :: "('a \<Rightarrow> 'k::linorder) \<Rightarrow> 'a list \<Rightarrow> 'a list" where
  "sort_reverse key xs = rev (sort_key key (rev xs))"

text \<open>
  \<open>results.sort(key=lambda x: x["score"], reverse=True)\<close>. When no score is \<open>nan\<close> the
  scores are totally ordered. With a \<open>nan\<close> among them every comparison with it is false
  and where the entries end up depends on the steps of the sorting algorithm: that
  outcome is taken as the parameter \<open>nan_sort\<close>.
\<close>

definition sort_results ::
  "(rerank_result list \<Rightarrow> rerank_result list) \<Rightarrow> rerank_result list \<Rightarrow> rerank_result list" where
  "sort_results nan_sort results =
     (if list_ex (\<lambda>r. score r = NaN) results then nan_sort results
      else sort_reverse (\<lambda>r. float_key (score r)) results)"

definition rerank ::
  "deployment \<Rightarrow> (pyobj \<Rightarrow> exn + pyfloat) \<Rightarrow> (rerank_result list \<Rightarrow> rerank_result list)
     \<Rightarrow> string \<Rightarrow> string list \<Rightarrow> int option \<Rightarrow> exn + rerank_result list" where
  "rerank dep conv nan_sort query documents top_k =
     (case rerank_loop dep conv query 0 documents of
        Inl e \<Rightarrow> Inl e
      | Inr results \<Rightarrow>
          (let results = sort_results nan_sort results
           in Inr (case top_k of None \<Rightarrow> results | Some k \<Rightarrow> py_slice_to results k)))"

section \<open>Framework adapters (\<open>src/common/datarobot_langchain.py\<close>)\<close>

text \<open>
  The framework's messages, by class; \<open>OtherMessage\<close> is any \<open>BaseMessage\<close> that is none of
  the three.
\<close>

datatype BaseMessage =
    SystemMessage pyobj
  | HumanMessage pyobj
  | AIMessage pyobj
  | OtherMessage pyobj

fun dr_message :: "(pyobj \<Rightarrow> string) \<Rightarrow> BaseMessage \<Rightarrow> message" where
  "dr_message repr (SystemMessage c) = [''role'' \<mapsto> PyStr ''system'', ''content'' \<mapsto> c]"
| "dr_message repr (HumanMessage c) = [''role'' \<mapsto> PyStr ''user'', ''content'' \<mapsto> c]"
| "dr_message repr (AIMessage c) = [''role'' \<mapsto> PyStr ''assistant'', ''content'' \<mapsto> c]"
| "dr_message repr (OtherMessage c) =
     [''role'' \<mapsto> PyStr ''user'', ''content'' \<mapsto> PyStr (py_str repr c)]"

text \<open>\<open>DataRobotChatModel._generate\<close>: the result's generations, one assistant message.\<close>

definition generate ::
  "deployment \<Rightarrow> (pyobj \<Rightarrow> string) \<Rightarrow> BaseMessage list \<Rightarrow> exn + BaseMessage list" where
  "generate dep repr messages =
     (case chat dep repr (map (dr_message repr) messages) of
        Inl e \<Rightarrow> Inl e
      | Inr resp \<Rightarrow> Inr [AIMessage (PyStr resp)])"

record Document =
  page_content :: string
  metadata :: "string \<rightharpoonup> pyobj"

text \<open>
  The loop of \<open>compress_documents\<close> over the reranked results left, \<open>reranked_docs\<close> being
  the documents made so far. \<open>documents[doc_index]\<close> raises when out of range.
\<close>

fun reranked_loop ::
  "Document list \<Rightarrow> rerank_result list \<Rightarrow> Document list \<Rightarrow> exn + Document list" where
  "reranked_loop documents [] reranked_docs = Inr reranked_docs"
| "reranked_loop documents (r # rs) reranked_docs =
     (if index r < length documents then
        (let original_doc = documents ! index r;
             new_doc = \<lparr>page_content = page_content original_doc,
                        metadata = (metadata original_doc)
                          (''rerank_score'' \<mapsto> PyFloat (score r),
                           ''rerank_rank'' \<mapsto> PyInt (int (length reranked_docs) + 1))\<rparr>
         in reranked_loop documents rs (reranked_docs @ [new_doc]))
      else Inl (IndexError ''list index out of range''))"

text \<open>
  \<open>DataRobotRerank.compress_documents\<close>: whatever the \<open>try\<close> block raises is caught (and
  logged), and the handler returns \<open>documents[:self.top_n]\<close>.
\<close>

definition compress_documents ::
  "deployment \<Rightarrow> (pyobj \<Rightarrow> exn + pyfloat) \<Rightarrow> (rerank_result list \<Rightarrow> rerank_result list)
     \<Rightarrow> int \<Rightarrow> Document list \<Rightarrow> string \<Rightarrow> exn + Document list" where
  "compress_documents dep conv nan_sort top_n documents query =
     (case (case rerank dep conv nan_sort query (map page_content documents) (Some top_n) of
              Inl e \<Rightarrow> Inl e
            | Inr reranked_results \<Rightarrow> reranked_loop documents reranked_results [])
      of Inl e \<Rightarrow> Inr (py_slice_to documents top_n)
       | Inr reranked_docs \<Rightarrow> Inr reranked_docs)"

section \<open>The conversation store: properties\<close>

lemma Mock_fetch_store_same:
  "Mock_fetch_conversation (Mock_store_conversation db s u h l t) s =
     Some \<lparr>user_id = u, conversation_history = h,
           last_conversation_time = l, start_conversation_time = t\<rparr>"
  by (simp add: Mock_fetch_conversation_def Mock_store_conversation_def)

lemma Mock_fetch_delete_same:
  "Mock_fetch_conversation (Mock_delete_conversation db s) s = None"
  by (simp add: Mock_fetch_conversation_def Mock_delete_conversation_def Mock_is_session_def)

lemma Mock_is_session_iff_fetch:
  "Mock_is_session db s \<longleftrightarrow> Mock_fetch_conversation db s \<noteq> None"
  by (simp add: Mock_is_session_def Mock_fetch_conversation_def)

lemma fetch_conversation_Mock:
  "fetch_conversation ops (Mock m) s = Inr (None, Mock m)"
  by (simp add: fetch_conversation_def)

text \<open>
  C1. Store then fetch through the facade should give back the history stored. The
  in-memory backend does keep it (\<open>Mock_fetch_store_same\<close>), but
  \<open>Datastore.fetch_conversation\<close> drops what the backend returns: with the store kind
  \<open>none\<close>, after storing session \<open>s1\<close> with history \<open>[hi]\<close>, the backend's fetch finds the
  conversation and the facade's fetch returns \<open>None\<close>.
\<close>

theorem facade_fetch_after_store_returns_None:
  "Datastore_init ''none'' pg_init = Inr (Mock Mock_init) \<and>
   store_conversation ops (Mock Mock_init) ''s1'' None [''hi''] ''t1'' ''t0''
     = Inr (Mock (Mock_store_conversation Mock_init ''s1'' None [''hi''] ''t1'' ''t0'')) \<and>
   Mock_fetch_conversation
       (Mock_store_conversation Mock_init ''s1'' None [''hi''] ''t1'' ''t0'') ''s1''
     = Some \<lparr>user_id = None, conversation_history = [''hi''],
             last_conversation_time = ''t1'', start_conversation_time = ''t0''\<rparr> \<and>
   fetch_conversation ops
       (Mock (Mock_store_conversation Mock_init ''s1'' None [''hi''] ''t1'' ''t0'')) ''s1''
     = Inr (None, Mock (Mock_store_conversation Mock_init ''s1'' None [''hi''] ''t1'' ''t0''))"
  by (simp add: Datastore_init_def store_conversation_def fetch_conversation_Mock
      Mock_fetch_store_same)

text \<open>
  C8. A backend name other than \<open>postgres\<close> and \<open>none\<close> makes the constructor raise, whatever
  the relational client would have done; \<open>none\<close> selects the in-memory backend and
  \<open>postgres\<close> the relational one (whose own constructor may raise).
\<close>

theorem Datastore_init_backend:
  "(db_name \<noteq> ''postgres'' \<and> db_name \<noteq> ''none'' \<longrightarrow>
      (Datastore_init db_name pg_init :: exn + ('pg, 'a) database) =
        Inl (ValueError
          (db_name @ '' database in not supported. Supported types: postgres, none''))) \<and>
   (Datastore_init ''none'' pg_init :: exn + ('pg, 'a) database) = Inr (Mock Mock_init) \<and>
   (Datastore_init ''postgres'' (Inr pg) :: exn + ('pg, 'a) database) = Inr (Postgres pg) \<and>
   (Datastore_init ''postgres'' (Inl e) :: exn + ('pg, 'a) database) = Inl e"
  by (simp add: Datastore_init_def)

theorem Datastore_init_backend_witness:
  "''redis'' \<noteq> ''postgres'' \<and> ''redis'' \<noteq> ''none'' \<and>
   Datastore_init ''redis'' (Inr ()) =
     (Inl (ValueError ''redis database in not supported. Supported types: postgres, none'')
       :: exn + (unit, nat) database)"
  using Datastore_init_backend
    [where ?'a = nat and ?'pg = unit, of "''redis''" "Inr ()" "()" "ValueError []"]
  by simp

text \<open>
  C10. In the in-memory backend, storing or deleting session \<open>s\<close> leaves what is stored
  under any other session \<open>t\<close> as it was, and deleting a session that is not there changes
  nothing.
\<close>

theorem Mock_frame:
  "(s \<noteq> t \<longrightarrow>
      Mock_fetch_conversation (Mock_store_conversation db s u h l st) t
        = Mock_fetch_conversation db t \<and>
      Mock_fetch_conversation (Mock_delete_conversation db s) t
        = Mock_fetch_conversation db t) \<and>
   (\<not> Mock_is_session db s \<longrightarrow> Mock_delete_conversation db s = db)"
  by (simp add: Mock_fetch_conversation_def Mock_store_conversation_def
      Mock_delete_conversation_def)

theorem Mock_frame_witness:
  "''a'' \<noteq> ''b'' \<and>
   \<not> Mock_is_session (Mock_store_conversation Mock_init ''b'' None [1::nat] ''x'' ''y'') ''a'' \<and>
   Mock_fetch_conversation
      (Mock_store_conversation (Mock_store_conversation Mock_init ''b'' None [1::nat] ''x'' ''y'')
         ''a'' (Some ''u'') [2] ''x'' ''y'') ''b''
     = Some \<lparr>user_id = None, conversation_history = [1],
             last_conversation_time = ''x'', start_conversation_time = ''y''\<rparr> \<and>
   Mock_fetch_conversation
      (Mock_delete_conversation
         (Mock_store_conversation Mock_init ''b'' None [1::nat] ''x'' ''y'') ''a'') ''b''
     = Some \<lparr>user_id = None, conversation_history = [1],
             last_conversation_time = ''x'', start_conversation_time = ''y''\<rparr> \<and>
   Mock_delete_conversation (Mock_store_conversation Mock_init ''b'' None [1::nat] ''x'' ''y'') ''a''
     = Mock_store_conversation Mock_init ''b'' None [1::nat] ''x'' ''y''"
  using Mock_frame [of "''a''" "''b''"
      "Mock_store_conversation Mock_init ''b'' None [1::nat] ''x'' ''y''"
      "Some ''u''" "[2]" "''x''" "''y''"]
  by (simp add: Mock_fetch_conversation_def Mock_delete_conversation_def Mock_is_session_def
      Mock_store_conversation_def Mock_init_def)

section \<open>The retrying transport: properties\<close>

text \<open>
  C9. With \<open>retry_attempts = 0\<close> the loop body never runs: no request is sent, nothing is
  logged or slept, no error is raised, and the method returns \<open>None\<close>.
\<close>

theorem make_request_zero_attempts:
  "retry_attempts config = 0 \<Longrightarrow>
   make_request config session sleep method endpoint data kwargs = (Inr None, [])"
  by (simp add: make_request_def py_range_def)

theorem make_request_zero_attempts_witness:
  "retry_attempts (default_AssistantConfig\<lparr>retry_attempts := 0\<rparr>) = 0 \<and>
   make_request (default_AssistantConfig\<lparr>retry_attempts := 0\<rparr>)
     (\<lambda>n r. Inl (RequestException ''down'')) (\<lambda>d. None)
     ''GET'' ''/health'' (None :: unit option) ()
   = (Inr (None :: unit option), [])"
  using make_request_zero_attempts [of "default_AssistantConfig\<lparr>retry_attempts := 0\<rparr>"
      "\<lambda>n r. Inl (RequestException ''down'')" "\<lambda>d. None"
      "''GET''" "''/health''" "None :: unit option" "()"]
  by simp





section \<open>Embeddings: properties\<close>













text \<open>
  Without the proviso on \<open>eval\<close> the list returned need not be full: a prediction whose
  string empties \<open>texts\<close> while it is evaluated ends the loop after the first of two texts.
\<close>

lemma embed_documents_eval_clears_texts:
  "embed_documents (\<lambda>n r. Inr (Some [PyStr ''texts.clear() or [1.0]'']))
       (\<lambda>s (texts, embeddings). Inr (PyList [PyFloat (Finite 1)], ([], embeddings)))
       [''a'', ''b'']
     = Some (Inr [PyList [PyFloat (Finite 1)]])"
  by (simp add: embed_documents_def embed_loop.simps embed_one_def)




section \<open>Reranking: properties\<close>

















lemma float_less_key:
  "a \<noteq> NaN \<Longrightarrow> b \<noteq> NaN \<Longrightarrow> float_less a b = (float_key a < float_key b)"
  by (simp add: float_less_def)





text \<open>
  With a \<open>nan\<close> among the scores the order is the one the sorting algorithm leaves. For
  the scores 1.0, \<open>nan\<close>, 2.0 that is the order of the input, and with it the output is
  not sorted.
\<close>

lemma rerank_nan_order_is_nan_sort:
  "rerank (\<lambda>i r. if i = 1 then Inr (Some [PyFloat NaN]) else if i = 2 then Inr (Some [PyFloat (Finite 2)])
                  else Inr (Some [PyFloat (Finite 1)]))
      (\<lambda>v. Inl (TypeError ''not a number'')) (\<lambda>rs. rs) ''q'' [''a'', ''b'', ''c''] None
     = Inr [\<lparr>document = ''a'', score = Finite 1, index = 0\<rparr>,
            \<lparr>document = ''b'', score = NaN, index = 1\<rparr>,
            \<lparr>document = ''c'', score = Finite 2, index = 2\<rparr>]"
  by (simp add: rerank_def score_one_def sort_results_def)

section \<open>Framework adapters and chat flattening: properties\<close>

text \<open>
  C5. When the \<open>rerank\<close> call raises, \<open>compress_documents\<close> returns \<open>documents[:top_n]\<close>,
  the first \<open>top_n\<close> of the original documents in their order when \<open>top_n \<ge> 0\<close>; and
  whatever happens inside, it never raises.
\<close>

theorem compress_documents_fail_open:
  "(\<forall>e. rerank dep conv nan_sort query (map page_content documents) (Some top_n) = Inl e \<longrightarrow>
      compress_documents dep conv nan_sort top_n documents query
        = Inr (py_slice_to documents top_n) \<and>
      (0 \<le> top_n \<longrightarrow>
         compress_documents dep conv nan_sort top_n documents query
           = Inr (take (nat top_n) documents))) \<and>
   (\<forall>e. compress_documents dep conv nan_sort top_n documents query \<noteq> Inl e)"
  by (simp add: compress_documents_def py_slice_to_def split: sum.splits)

theorem compress_documents_fail_open_witness:
  "rerank (\<lambda>i r. Inl (RequestException ''down'')) (\<lambda>v. Inl (TypeError ''not a number''))
      (\<lambda>rs. rs) ''q''
      (map page_content
         [\<lparr>page_content = ''a'', metadata = Map.empty\<rparr>,
          \<lparr>page_content = ''b'', metadata = Map.empty\<rparr>,
          \<lparr>page_content = ''c'', metadata = Map.empty\<rparr>]) (Some 2)
     = Inl (RequestException ''down'') \<and>
   (0::int) \<le> 2 \<and>
   compress_documents (\<lambda>i r. Inl (RequestException ''down''))
      (\<lambda>v. Inl (TypeError ''not a number'')) (\<lambda>rs. rs) 2
      [\<lparr>page_content = ''a'', metadata = Map.empty\<rparr>,
       \<lparr>page_content = ''b'', metadata = Map.empty\<rparr>,
       \<lparr>page_content = ''c'', metadata = Map.empty\<rparr>] ''q''
     = Inr [\<lparr>page_content = ''a'', metadata = Map.empty\<rparr>,
            \<lparr>page_content = ''b'', metadata = Map.empty\<rparr>]"
proof -
  let ?dep = "\<lambda>(i::nat) (r::row). Inl (RequestException ''down'') :: exn + pyobj list option"
  let ?conv = "\<lambda>v::pyobj. Inl (TypeError ''not a number'') :: exn + pyfloat"
  let ?nan = "\<lambda>rs::rerank_result list. rs"
  let ?docs = "[\<lparr>page_content = ''a'', metadata = Map.empty\<rparr>,
          \<lparr>page_content = ''b'', metadata = Map.empty\<rparr>,
          \<lparr>page_content = ''c'', metadata = Map.empty\<rparr>]"
  have fails: "rerank ?dep ?conv ?nan ''q'' (map page_content ?docs) (Some 2)
      = Inl (RequestException ''down'')"
    by (simp add: rerank_def score_one_def)
  from compress_documents_fail_open [of ?dep ?conv ?nan "''q''" ?docs 2] fails
  have "compress_documents ?dep ?conv ?nan 2 ?docs ''q'' = Inr (take (nat 2) ?docs)"
    by (simp add: py_slice_to_def)
  then show ?thesis using fails by simp
qed

text \<open>
  Through the adapter every framework message, whatever its class, writes its line to
  the prompt: the adapter has turned the other classes into user messages.
\<close>

lemma format_loop_dr_messages:
  "format_loop repr p (map (dr_message repr) messages)
     = p @ concat (map (\<lambda>m. case m of
           SystemMessage c \<Rightarrow> ''System: '' @ py_str repr c @ ''\<newline>''
         | HumanMessage c \<Rightarrow> ''User: '' @ py_str repr c @ ''\<newline>''
         | AIMessage c \<Rightarrow> ''Assistant: '' @ py_str repr c @ ''\<newline>''
         | OtherMessage c \<Rightarrow> ''User: '' @ py_str repr c @ ''\<newline>'') messages)"
  (is "_ = p @ concat (map ?line messages)")
proof (induction messages arbitrary: p)
  case Nil
  show ?case by simp
next
  case (Cons m ms)
  have step: "format_loop repr p (dr_message repr m # map (dr_message repr) ms)
      = format_loop repr (p @ ?line m) (map (dr_message repr) ms)"
    by (cases m) (simp_all add: dict_get_def)
  have "format_loop repr p (map (dr_message repr) (m # ms))
      = format_loop repr (p @ ?line m) (map (dr_message repr) ms)"
    using step by (simp only: list.map)
  also have "\<dots> = (p @ ?line m) @ concat (map ?line ms)"
    by (rule Cons.IH)
  also have "\<dots> = p @ concat (map ?line (m # ms))"
    by (simp only: list.map concat.simps append_assoc)
  finally show ?case .
qed

lemma format_scenario:
  "format_messages_to_prompt repr
     [[''role'' \<mapsto> PyStr ''system'', ''content'' \<mapsto> PyStr ''be terse''],
      [''role'' \<mapsto> PyStr ''user'', ''content'' \<mapsto> PyStr ''2+2?'']]
   = ''System: be terse\<newline>User: 2+2?\<newline>Assistant:''"
  by (simp add: format_messages_to_prompt_def dict_get_def)

text \<open>
  C6. Flattening should turn a message whose role is none of system, user and assistant
  into a user message, so that it shows in the prompt. \<open>_format_messages_to_prompt\<close> has
  no branch for such a role: a message with role \<open>tool\<close> and content \<open>42\<close> leaves no trace
  in the prompt. The same content sent through the adapter as a message of another
  class does come out as a user line.
\<close>

theorem format_messages_drops_other_role:
  "format_messages_to_prompt repr [[''role'' \<mapsto> PyStr ''tool'', ''content'' \<mapsto> PyStr ''42'']]
     = ''Assistant:'' \<and>
   format_messages_to_prompt repr (map (dr_message repr) [OtherMessage (PyStr ''42'')])
     = ''User: 42\<newline>Assistant:''"
  by (simp add: format_messages_to_prompt_def dict_get_def)

end
